theory Spec2Isabelle
  imports Complex_Main
begin

section \<open>JavaScript values of the request bodies\<close>

text \<open>
  The handlers read the fields of a JSON request body with truthiness tests
  (\<^verbatim>\<open>!x\<close>), with \<^verbatim>\<open>typeof x === 'number'\<close> and with \<^verbatim>\<open>Number(x)\<close>.
  A field is modelled as one of the JSON primitives or \<^verbatim>\<open>undefined\<close> (field absent).
  A number of a request is a real; \<^verbatim>\<open>NaN\<close>, which \<^verbatim>\<open>Number\<close> yields on text that
  is no number, is kept as a value of its own. A text is a list of the code units 0 to 255
  (an Isabelle string); text with other code units is outside the model.
\<close>

datatype jsval = JUndefined | JNull | JBool bool | JNum real | JStr string

datatype jsnum = NaN | Num real

text \<open>ToBoolean: \<^verbatim>\<open>undefined\<close>, \<^verbatim>\<open>null\<close>, \<^verbatim>\<open>false\<close>, \<^verbatim>\<open>0\<close> and \<^verbatim>\<open>""\<close> are falsy.\<close>

fun truthy :: "jsval \<Rightarrow> bool" where
  "truthy JUndefined = False"
| "truthy JNull = False"
| "truthy (JBool b) = b"
| "truthy (JNum r) = (r \<noteq> 0)"
| "truthy (JStr s) = (s \<noteq> [])"

fun typeof_number :: "jsval \<Rightarrow> bool" where
  "typeof_number (JNum r) = True"
| "typeof_number v = False"

text \<open>
  \<^verbatim>\<open>Number(v)\<close>. The reading of a string (ECMAScript's StringToNumber) is a parameter
  \<open>s2n\<close> of the model: no result below depends on what it returns.
\<close>

fun Number_js :: "(string \<Rightarrow> jsnum) \<Rightarrow> jsval \<Rightarrow> jsnum" where
  "Number_js s2n JUndefined = NaN"
| "Number_js s2n JNull = Num 0"
| "Number_js s2n (JBool b) = Num (if b then 1 else 0)"
| "Number_js s2n (JNum r) = Num r"
| "Number_js s2n (JStr s) = s2n s"

section \<open>The odometer rounding rule\<close>

text \<open>
  \<^verbatim>\<open>
  const roundDistance = (d) => {
    const base = Math.floor(Number(d) || 0);
    const frac = (Number(d) || 0) - base;
    return base + (frac > 0.5 ? 1 : 0);
  };
  \<close>
  The function is declared three times with the same body (in \<^verbatim>\<open>endTrip\<close>,
  \<^verbatim>\<open>addRoutePoint\<close> and \<^verbatim>\<open>addRoutePointsBulk\<close>) and is always called on
  \<^verbatim>\<open>trip.distance || 0\<close>, a number. \<open>or0\<close> is \<^verbatim>\<open>x || 0\<close> on a number.
\<close>

definition or0 :: "real \<Rightarrow> real" where
  "or0 x = (if x \<noteq> 0 then x else 0)"

definition roundDistance :: "real \<Rightarrow> real" where
  "roundDistance d =
     (let base = of_int \<lfloor>or0 d\<rfloor>;
          frac = or0 d - base
      in base + (if frac > 0.5 then 1 else 0))"

section \<open>The trip document\<close>

text \<open>
  \<^verbatim>\<open>tripPointSchema\<close> and \<^verbatim>\<open>tripSchema\<close> of the Trip model. Dates are
  milliseconds since the epoch (\<^verbatim>\<open>getTime()\<close>); an absent \<^verbatim>\<open>endTime\<close>,
  \<^verbatim>\<open>endOdometer\<close> or location is \<open>None\<close>. The bookkeeping stamps
  \<^verbatim>\<open>createdAt\<close> and \<^verbatim>\<open>updatedAt\<close> are left out.
\<close>

record tripPoint =
  latitude :: real
  longitude :: real
  timestamp :: real
  accuracy :: real

datatype tripStatus = Active | Completed

record trip =
  tripId :: nat
  userId :: nat
  purpose :: string
  startTime :: int
  endTime :: "int option"
  startOdometer :: real
  endOdometer :: "real option"
  startLocation :: "string option"
  endLocation :: "string option"
  distance :: real
  duration :: int
  route :: "tripPoint list"
  status :: tripStatus
  averageSpeed :: real

section \<open>Trip metrics\<close>

text \<open>
  The function that \<^verbatim>\<open>Math.atan2(y, x)\<close> computes in exact arithmetic: the angle of the
  point \<open>(x, y)\<close>, in \<open>(-\<pi>, \<pi>]\<close>.
\<close>

definition atan2 :: "real \<Rightarrow> real \<Rightarrow> real" where
  "atan2 y x =
     (if x > 0 then arctan (y / x)
      else if x < 0 then (if y \<ge> 0 then arctan (y / x) + pi else arctan (y / x) - pi)
      else if y > 0 then pi / 2
      else if y < 0 then - pi / 2
      else 0)"

text \<open>
  The numbers of the metrics are IEEE doubles. A double is a real, or \<^verbatim>\<open>NaN\<close>; an
  arithmetic operation gives the exact result rounded to a double, and the rounding \<open>fl\<close>
  and the library functions \<^verbatim>\<open>Math.sin\<close>, \<^verbatim>\<open>Math.cos\<close> and \<^verbatim>\<open>Math.atan2\<close> of the
  machine are parameters, held in a record. \<^verbatim>\<open>Math.sqrt\<close> of a negative number is
  \<^verbatim>\<open>NaN\<close>, and \<^verbatim>\<open>NaN\<close> spreads through every operation.
\<close>

record ieee =
  fl :: "real \<Rightarrow> real"
  Math_sin :: "real \<Rightarrow> real"
  Math_cos :: "real \<Rightarrow> real"
  Math_atan2 :: "real \<Rightarrow> real \<Rightarrow> real"

definition fadd :: "ieee \<Rightarrow> real \<Rightarrow> real \<Rightarrow> real" where
  "fadd m x y = fl m (x + y)"

definition fsub :: "ieee \<Rightarrow> real \<Rightarrow> real \<Rightarrow> real" where
  "fsub m x y = fl m (x - y)"

definition fmul :: "ieee \<Rightarrow> real \<Rightarrow> real \<Rightarrow> real" where
  "fmul m x y = fl m (x * y)"

definition fdiv :: "ieee \<Rightarrow> real \<Rightarrow> real \<Rightarrow> real" where
  "fdiv m x y = fl m (x / y)"

definition Math_PI :: "ieee \<Rightarrow> real" where
  "Math_PI m = fl m pi"

definition Math_sqrt :: "ieee \<Rightarrow> real \<Rightarrow> jsnum" where
  "Math_sqrt m x = (if x < 0 then NaN else Num (fl m (sqrt x)))"

fun jsadd :: "ieee \<Rightarrow> jsnum \<Rightarrow> jsnum \<Rightarrow> jsnum" where
  "jsadd m (Num x) (Num y) = Num (fadd m x y)"
| "jsadd m x y = NaN"

text \<open>
  \<^verbatim>\<open>
  tripSchema.methods.calculateHaversineDistance = function(point1, point2) {
    const R = 6371;
    const dLat = (point2.latitude - point1.latitude) * Math.PI / 180;
    const dLon = (point2.longitude - point1.longitude) * Math.PI / 180;
    const a = Math.sin(dLat / 2) * Math.sin(dLat / 2) +
      Math.cos(point1.latitude * Math.PI / 180) * Math.cos(point2.latitude * Math.PI / 180) *
      Math.sin(dLon / 2) * Math.sin(dLon / 2);
    const c = 2 * Math.atan2(Math.sqrt(a), Math.sqrt(1 - a));
    return R * c;
  };
  \<close>
  \<open>haversine_a\<close> is the constant \<^verbatim>\<open>a\<close> of the function, every operation in the order of
  the source.
\<close>

definition haversine_a :: "ieee \<Rightarrow> tripPoint \<Rightarrow> tripPoint \<Rightarrow> real" where
  "haversine_a m point1 point2 =
     (let dLat = fdiv m (fmul m (fsub m (latitude point2) (latitude point1)) (Math_PI m)) 180;
          dLon = fdiv m (fmul m (fsub m (longitude point2) (longitude point1)) (Math_PI m)) 180
      in fadd m
           (fmul m (Math_sin m (fdiv m dLat 2)) (Math_sin m (fdiv m dLat 2)))
           (fmul m
              (fmul m
                 (fmul m (Math_cos m (fdiv m (fmul m (latitude point1) (Math_PI m)) 180))
                         (Math_cos m (fdiv m (fmul m (latitude point2) (Math_PI m)) 180)))
                 (Math_sin m (fdiv m dLon 2)))
              (Math_sin m (fdiv m dLon 2))))"

definition calculateHaversineDistance :: "ieee \<Rightarrow> tripPoint \<Rightarrow> tripPoint \<Rightarrow> jsnum" where
  "calculateHaversineDistance m point1 point2 =
     (let R = 6371;
          a = haversine_a m point1 point2
      in case (Math_sqrt m a, Math_sqrt m (fsub m 1 a)) of
           (Num y, Num x) \<Rightarrow> Num (fmul m R (fmul m 2 (Math_atan2 m y x)))
         | _ \<Rightarrow> NaN)"

text \<open>
  The loop of \<^verbatim>\<open>calculateMetrics\<close>:
  \<^verbatim>\<open>for (let i = 1; i < this.route.length; i++) totalDistance += haversine(route[i-1], route[i])\<close>.
\<close>

function distanceLoop :: "ieee \<Rightarrow> tripPoint list \<Rightarrow> nat \<Rightarrow> jsnum \<Rightarrow> jsnum" where
  "distanceLoop m r i totalDistance =
     (if i < length r
      then distanceLoop m r (Suc i)
             (jsadd m totalDistance (calculateHaversineDistance m (r ! (i - 1)) (r ! i)))
      else totalDistance)"
  by pat_completeness auto
termination
  by (relation "measure (\<lambda>(m, r, i, t). length r - i)") auto

declare distanceLoop.simps [simp del]

text \<open>
  \<^verbatim>\<open>
  tripSchema.methods.calculateMetrics = function() {
    let totalDistance = 0;
    if (this.route && this.route.length >= 2) { ...loop... }
    this.distance = totalDistance;
    if (this.endTime) {
      const durSec = Math.floor((this.endTime.getTime() - this.startTime.getTime()) / 1000);
      this.duration = Math.max(0, durSec);
      this.averageSpeed = this.duration > 0 ? (this.distance / this.duration) * 3.6 : 0;
    }
  };
  \<close>
  \<^verbatim>\<open>distance\<close> is a \<^verbatim>\<open>Number\<close> path of the schema: the assignment of \<^verbatim>\<open>NaN\<close> to it
  is refused and the field keeps its value. Without an \<^verbatim>\<open>endTime\<close> the method leaves
  \<^verbatim>\<open>duration\<close> and \<^verbatim>\<open>averageSpeed\<close> as they are.
\<close>

definition calculateMetrics :: "ieee \<Rightarrow> trip \<Rightarrow> trip" where
  "calculateMetrics m t =
     (let totalDistance =
            (if length (route t) \<ge> 2 then distanceLoop m (route t) 1 (Num 0) else Num 0);
          t1 = (case totalDistance of Num d \<Rightarrow> t\<lparr>distance := d\<rparr> | NaN \<Rightarrow> t)
      in case endTime t1 of
           None \<Rightarrow> t1
         | Some e \<Rightarrow>
             (let durSec = \<lfloor>fdiv m (real_of_int (e - startTime t1)) 1000\<rfloor>;
                  d = max 0 durSec
              in t1\<lparr>duration := d,
                    averageSpeed :=
                      (if d > 0 then fmul m (fdiv m (distance t1) (real_of_int d)) (fl m 3.6)
                       else 0)\<rparr>))"

text \<open>
  Two machines for the examples: one that computes exactly, and one whose cosine is too
  large by one part in \<open>2\<^sup>5\<^sup>2\<close>, an error of the size of a double's last bit.
\<close>

definition exactMachine :: ieee where
  "exactMachine = \<lparr>fl = (\<lambda>x. x), Math_sin = sin, Math_cos = cos, Math_atan2 = atan2\<rparr>"

definition ulpMachine :: ieee where
  "ulpMachine = exactMachine\<lparr>Math_cos := (\<lambda>x. cos x * (1 + 1 / 2 ^ 52))\<rparr>"

text \<open>
  The distance as the specification words it: the haversine formula with squared sines
  and Earth radius 6371 km, in exact arithmetic, summed over the consecutive pairs of the
  route.
\<close>

definition spec_haversine :: "tripPoint \<Rightarrow> tripPoint \<Rightarrow> real" where
  "spec_haversine p1 p2 =
     (let rad = (\<lambda>deg. deg * pi / 180);
          a = (sin (rad (latitude p2 - latitude p1) / 2))\<^sup>2 +
              cos (rad (latitude p1)) * cos (rad (latitude p2)) *
              (sin (rad (longitude p2 - longitude p1) / 2))\<^sup>2
      in 6371 * (2 * atan2 (sqrt a) (sqrt (1 - a))))"

definition spec_distanceKm :: "tripPoint list \<Rightarrow> real" where
  "spec_distanceKm r =
     (if length r < 2 then 0
      else sum_list (map (\<lambda>(p, q). spec_haversine p q) (zip r (tl r))))"

section \<open>The reverse-geocoding cache\<close>

text \<open>
  \<^verbatim>\<open>Number.prototype.toFixed(5)\<close> on a real below \<open>10\<^sup>2\<^sup>1\<close> in size: the sign, then the
  integer \<open>n\<close> nearest to \<open>10\<^sup>5\<close> times the absolute value (the larger one on a tie),
  printed in decimal with at least six digits and a point before the last five.
\<close>

definition digitChar :: "nat \<Rightarrow> char" where
  "digitChar d = ''0123456789'' ! d"

fun showNat :: "nat \<Rightarrow> string" where
  "showNat n = (if n < 10 then [digitChar n] else showNat (n div 10) @ [digitChar (n mod 10)])"

declare showNat.simps [simp del]

definition toFixed5 :: "real \<Rightarrow> string" where
  "toFixed5 x =
     (let n = nat \<lfloor>\<bar>x\<bar> * 100000 + 1 / 2\<rfloor>;
          m = showNat n;
          m' = replicate (6 - length m) (CHR ''0'') @ m;
          k = length m'
      in (if x < 0 then [CHR ''-''] else []) @ take (k - 5) m' @ [CHR ''.''] @ drop (k - 5) m')"

text \<open>
  \<^verbatim>\<open>
  const cache = new Map();
  const CACHE_TTL_MS = 1000 * 60 * 60 * 6;
  function cacheKey(lat, lon) { return `${lat.toFixed(5)},${lon.toFixed(5)}`; }
  function getCached(lat, lon) {
    const entry = cache.get(cacheKey(lat, lon));
    if (entry && (Date.now() - entry.timestamp) < CACHE_TTL_MS) return entry.name;
    return null;
  }
  function setCache(lat, lon, name) {
    cache.set(cacheKey(lat, lon), { name, timestamp: Date.now() });
  }
  \<close>
  Every reading of the clock is an argument.
\<close>

record cacheEntry =
  name :: string
  timestamp_ms :: int

type_synonym geoCache = "string \<rightharpoonup> cacheEntry"

definition CACHE_TTL_MS :: int where
  "CACHE_TTL_MS = 1000 * 60 * 60 * 6"

definition cacheKey :: "real \<Rightarrow> real \<Rightarrow> string" where
  "cacheKey lat lon = toFixed5 lat @ [CHR '',''] @ toFixed5 lon"

definition getCached :: "geoCache \<Rightarrow> int \<Rightarrow> real \<Rightarrow> real \<Rightarrow> string option" where
  "getCached c clock lat lon =
     (case c (cacheKey lat lon) of
        Some entry \<Rightarrow> (if clock - timestamp_ms entry < CACHE_TTL_MS then Some (name entry) else None)
      | None \<Rightarrow> None)"

definition setCache :: "geoCache \<Rightarrow> int \<Rightarrow> real \<Rightarrow> real \<Rightarrow> string \<Rightarrow> geoCache" where
  "setCache c clock lat lon nm = c(cacheKey lat lon \<mapsto> \<lparr>name = nm, timestamp_ms = clock\<rparr>)"

text \<open>
  The parsed answer of the upstream service: a document with an optional \<^verbatim>\<open>address\<close>
  object and an optional \<^verbatim>\<open>display_name\<close>, all values text. A string is truthy when
  it is not empty; \<open>orNull v\<close> is \<^verbatim>\<open>v || null\<close>.
  \<^verbatim>\<open>
  function extractName(json) {
    if (!json) return null;
    const { address } = json;
    if (!address) return json.display_name || null;
    const fields = ['suburb','neighbourhood','quarter','hamlet','village','town','city',
                    'municipality','state_district','state','country'];
    for (const f of fields) { if (address[f]) return address[f]; }
    return json.display_name || null;
  }
  \<close>
\<close>

record nominatim =
  address :: "(string \<rightharpoonup> string) option"
  display_name :: "string option"

definition orNull :: "string option \<Rightarrow> string option" where
  "orNull v = (case v of Some x \<Rightarrow> (if x \<noteq> [] then Some x else None) | None \<Rightarrow> None)"

definition nameFields :: "string list" where
  "nameFields = [''suburb'', ''neighbourhood'', ''quarter'', ''hamlet'', ''village'', ''town'',
             ''city'', ''municipality'', ''state_district'', ''state'', ''country'']"

fun firstField :: "(string \<rightharpoonup> string) \<Rightarrow> string list \<Rightarrow> string option" where
  "firstField a [] = None"
| "firstField a (f # fs) =
     (case orNull (a f) of Some x \<Rightarrow> Some x | None \<Rightarrow> firstField a fs)"

definition extractName :: "nominatim option \<Rightarrow> string option" where
  "extractName json =
     (case json of
        None \<Rightarrow> None
      | Some j \<Rightarrow>
          (case address j of
             None \<Rightarrow> orNull (display_name j)
           | Some a \<Rightarrow>
               (case firstField a nameFields of
                  Some x \<Rightarrow> Some x
                | None \<Rightarrow> orNull (display_name j))))"

text \<open>
  What the upstream request gives: an error of the request, a body that does not parse
  (both become \<^verbatim>\<open>null\<close>), or a parsed body, itself possibly a falsy value (\<open>None\<close>).
\<close>

datatype upstreamResult = RequestError | Unparseable | Parsed "nominatim option"

definition fetchJson :: "upstreamResult \<Rightarrow> nominatim option" where
  "fetchJson u = (case u of RequestError \<Rightarrow> None | Unparseable \<Rightarrow> None | Parsed j \<Rightarrow> j)"

text \<open>
  \<^verbatim>\<open>
  async function reverseGeocode(lat, lon) {
    if (lat == null || lon == null) return null;
    const cached = getCached(lat, lon);
    if (cached) return cached;
    const json = await new Promise(... https.get(url, ...) ...).catch(() => null);
    const name = extractName(json);
    if (name) setCache(lat, lon, name);
    return name;
  }
  \<close>
  The result holds the name, the cache afterwards and whether the upstream service was
  asked. \<open>clock\<close> is the time read by \<^verbatim>\<open>getCached\<close>, \<open>clock'\<close> the one read by
  \<^verbatim>\<open>setCache\<close>, \<open>u\<close> the upstream's answer to this request.
\<close>

record geoResult =
  geoName :: "string option"
  geoCacheAfter :: geoCache
  askedUpstream :: bool

definition reverseGeocode ::
  "geoCache \<Rightarrow> int \<Rightarrow> upstreamResult \<Rightarrow> int \<Rightarrow> real option \<Rightarrow> real option \<Rightarrow> geoResult" where
  "reverseGeocode c clock u clock' lat lon =
     (case (lat, lon) of
        (Some la, Some lo) \<Rightarrow>
          (case orNull (getCached c clock la lo) of
             Some cached \<Rightarrow> \<lparr>geoName = Some cached, geoCacheAfter = c, askedUpstream = False\<rparr>
           | None \<Rightarrow>
               (let json = fetchJson u;
                    nm = extractName json
                in \<lparr>geoName = nm,
                    geoCacheAfter = (case orNull nm of
                                       Some x \<Rightarrow> setCache c clock' la lo x
                                     | None \<Rightarrow> c),
                    askedUpstream = True\<rparr>))
      | _ \<Rightarrow> \<lparr>geoName = None, geoCacheAfter = c, askedUpstream = False\<rparr>)"

section \<open>The store and the schema checks\<close>

text \<open>
  The ledger document of the UserData model (one per user, keyed by \<^verbatim>\<open>userId\<close>), and
  the state the handlers work on: the Trip collection in insertion order, the ledger, the
  geocoder's cache and the next fresh \<^verbatim>\<open>_id\<close>.
\<close>

record userDataDoc =
  currentOdometer :: real
  activeTrip :: "nat option"

record store =
  trips :: "trip list"
  userData :: "nat \<rightharpoonup> userDataDoc"
  cache :: geoCache
  nextId :: nat

text \<open>
  What a request meets outside the store: the clock of \<^verbatim>\<open>new Date()\<close>, the two clock
  readings of the geocoder, the upstream's answer should it be asked, the reading of
  numeric text, and the arithmetic of the machine.
\<close>

record world =
  now :: int
  geoClock :: int
  geoClock' :: int
  upstream :: upstreamResult
  StringToNumber :: "string \<Rightarrow> jsnum"
  machine :: ieee

text \<open>
  The responses: status 400 with a message about the input is \<open>InvalidInput\<close>, status 400
  for a second active trip or a completed trip is \<open>Conflict\<close>, 404 is \<open>NotFound\<close>, and the
  500 of a \<^verbatim>\<open>catch\<close> block is \<open>ServerError\<close>.
\<close>

datatype error = InvalidInput | Conflict | NotFound | ServerError

text \<open>A point as it arrives in a request body: four fields of any kind.\<close>

record rawPoint =
  p_latitude :: jsval
  p_longitude :: jsval
  p_accuracy :: jsval
  p_timestamp :: jsval

text \<open>
  The cast of a required \<^verbatim>\<open>Number\<close> path: numbers are taken, text and booleans go
  through \<^verbatim>\<open>Number\<close>, and a missing value, empty text or \<^verbatim>\<open>NaN\<close> fails the save.
\<close>

fun castNumber :: "(string \<Rightarrow> jsnum) \<Rightarrow> jsval \<Rightarrow> real option" where
  "castNumber s2n JUndefined = None"
| "castNumber s2n JNull = None"
| "castNumber s2n (JBool b) = Some (if b then 1 else 0)"
| "castNumber s2n (JNum r) = Some r"
| "castNumber s2n (JStr s) =
     (if s = [] then None else (case s2n s of Num r \<Rightarrow> Some r | NaN \<Rightarrow> None))"

definition castPoint :: "(string \<Rightarrow> jsnum) \<Rightarrow> rawPoint \<Rightarrow> tripPoint option" where
  "castPoint s2n p =
     (case (castNumber s2n (p_latitude p), castNumber s2n (p_longitude p),
            castNumber s2n (p_timestamp p), castNumber s2n (p_accuracy p)) of
        (Some la, Some lo, Some ts, Some ac) \<Rightarrow>
          Some \<lparr>latitude = la, longitude = lo, timestamp = ts, accuracy = ac\<rparr>
      | _ \<Rightarrow> None)"

fun castRoute :: "(string \<Rightarrow> jsnum) \<Rightarrow> rawPoint list \<Rightarrow> tripPoint list option" where
  "castRoute s2n [] = Some []"
| "castRoute s2n (p # ps) =
     (case castPoint s2n p of
        None \<Rightarrow> None
      | Some f \<Rightarrow> (case castRoute s2n ps of None \<Rightarrow> None | Some fs \<Rightarrow> Some (f # fs)))"

text \<open>The validators of the schemas, one per path.\<close>

definition validPoint :: "tripPoint \<Rightarrow> bool" where
  "validPoint f =
     (- 90 \<le> latitude f \<and> latitude f \<le> 90 \<and>
      - 180 \<le> longitude f \<and> longitude f \<le> 180 \<and> 0 \<le> accuracy f)"

definition validPurpose :: "string \<Rightarrow> bool" where
  "validPurpose p = (p \<noteq> [] \<and> 3 \<le> length p \<and> length p \<le> 200)"

definition validLocation :: "string option \<Rightarrow> bool" where
  "validLocation l = (case l of None \<Rightarrow> True | Some x \<Rightarrow> length x \<le> 500)"

definition validEndTime :: "trip \<Rightarrow> bool" where
  "validEndTime t = (case endTime t of None \<Rightarrow> True | Some e \<Rightarrow> e > startTime t)"

definition validEndOdometer :: "trip \<Rightarrow> bool" where
  "validEndOdometer t =
     (case endOdometer t of
        None \<Rightarrow> True
      | Some v \<Rightarrow> 0 \<le> v \<and> (v = 0 \<or> v \<ge> startOdometer t))"

text \<open>
  \<^verbatim>\<open>String.prototype.trim\<close>, also the \<^verbatim>\<open>trim\<close> setter of the schema: it strips the
  white space and line terminators of ECMAScript. Among the code units 0 to 255 these are
  the tab, the line feed, the vertical tab, the form feed, the carriage return, the space
  and the no-break space (hexadecimal A0).
\<close>

definition isWhiteSpace :: "char \<Rightarrow> bool" where
  "isWhiteSpace ch =
     (ch \<in> set [CHR 0x09, CHR 0x0A, CHR 0x0B, CHR 0x0C, CHR 0x0D, CHR 0x20, CHR 0xA0])"

definition trim_js :: "string \<Rightarrow> string" where
  "trim_js s = rev (dropWhile isWhiteSpace (rev (dropWhile isWhiteSpace s)))"

text \<open>\<^verbatim>\<open>tripSchema.pre('save', function(next) { this.calculateMetrics(); next(); })\<close>\<close>

definition preSave :: "ieee \<Rightarrow> trip \<Rightarrow> trip" where
  "preSave m t = calculateMetrics m t"

text \<open>
  \<^verbatim>\<open>tripSchema.statics.findActiveTrip = function(userId) {
    return this.findOne({ userId, status: 'active' }); }\<close>
\<close>

definition findActiveTrip :: "trip list \<Rightarrow> nat \<Rightarrow> trip option" where
  "findActiveTrip ts uid = find (\<lambda>t. userId t = uid \<and> status t = Active) ts"

text \<open>
  \<^verbatim>\<open>save()\<close> writes back the document that \<^verbatim>\<open>findOne\<close> returned: the first one of
  the collection that meets the query. \<^verbatim>\<open>findByIdAndDelete\<close> removes the first one
  with the \<^verbatim>\<open>_id\<close>.
\<close>

fun replaceFirst :: "('a \<Rightarrow> bool) \<Rightarrow> 'a \<Rightarrow> 'a list \<Rightarrow> 'a list" where
  "replaceFirst P y [] = []"
| "replaceFirst P y (x # xs) = (if P x then y # xs else x # replaceFirst P y xs)"


section \<open>The ledger updates\<close>

text \<open>
  In \<^verbatim>\<open>createTrip\<close>:
  \<^verbatim>\<open>UserData.findOneAndUpdate({ userId },
     { $set: { activeTrip: trip._id, ... }, $max: { currentOdometer: Number(startOdometer) } },
     { new: true, upsert: true })\<close>.
  On a new record \<^verbatim>\<open>$max\<close> sets the field.
\<close>

definition ledgerStart :: "(nat \<rightharpoonup> userDataDoc) \<Rightarrow> nat \<Rightarrow> nat \<Rightarrow> real \<Rightarrow> (nat \<rightharpoonup> userDataDoc)" where
  "ledgerStart m uid tid v =
     m(uid \<mapsto> (case m uid of
                  None \<Rightarrow> \<lparr>currentOdometer = v, activeTrip = Some tid\<rparr>
                | Some u \<Rightarrow> \<lparr>currentOdometer = max (currentOdometer u) v, activeTrip = Some tid\<rparr>))"

text \<open>
  In the two append handlers, without upsert:
  \<^verbatim>\<open>UserData.findOneAndUpdate({ userId, activeTrip: { $ne: trip._id } },
     { $set: { activeTrip: trip._id, ... } })\<close> and afterwards
  \<^verbatim>\<open>UserData.findOneAndUpdate({ userId },
     { $set: { currentOdometer: trip.startOdometer + estDistance, ... } })\<close>.
\<close>

definition ledgerSync :: "(nat \<rightharpoonup> userDataDoc) \<Rightarrow> nat \<Rightarrow> nat \<Rightarrow> (nat \<rightharpoonup> userDataDoc)" where
  "ledgerSync m uid tid =
     (case m uid of
        None \<Rightarrow> m
      | Some u \<Rightarrow> (if activeTrip u \<noteq> Some tid then m(uid \<mapsto> u\<lparr>activeTrip := Some tid\<rparr>) else m))"

definition ledgerLive :: "(nat \<rightharpoonup> userDataDoc) \<Rightarrow> nat \<Rightarrow> real \<Rightarrow> (nat \<rightharpoonup> userDataDoc)" where
  "ledgerLive m uid v =
     (case m uid of None \<Rightarrow> m | Some u \<Rightarrow> m(uid \<mapsto> u\<lparr>currentOdometer := v\<rparr>))"

text \<open>
  In \<^verbatim>\<open>endTrip\<close>:
  \<^verbatim>\<open>UserData.findOneAndUpdate({ userId },
     { $inc: { currentOdometer: roundedDistance }, $set: { activeTrip: null, ... } },
     { new: true, upsert: true })\<close>.
\<close>

definition ledgerEnd :: "(nat \<rightharpoonup> userDataDoc) \<Rightarrow> nat \<Rightarrow> real \<Rightarrow> (nat \<rightharpoonup> userDataDoc)" where
  "ledgerEnd m uid r =
     m(uid \<mapsto> (case m uid of
                  None \<Rightarrow> \<lparr>currentOdometer = r, activeTrip = None\<rparr>
                | Some u \<Rightarrow> \<lparr>currentOdometer = currentOdometer u + r, activeTrip = None\<rparr>))"

section \<open>The trip handlers\<close>

text \<open>
  Every handler takes the world of the request, the store and the authenticated user, and
  returns the response together with the store afterwards. A failure of the storage layer
  itself is outside the model.
\<close>

definition noLookup :: "geoCache \<Rightarrow> geoResult" where
  "noLookup c = \<lparr>geoName = None, geoCacheAfter = c, askedUpstream = False\<rparr>"

text \<open>
  \<^verbatim>\<open>Trip.create({ userId, purpose: purpose.trim(), startOdometer: Number(startOdometer),
                 route: route || [], status: 'active', startLocation })\<close>:
  the new document with the defaults of the schema, cast and validated; \<open>None\<close> when
  \<^verbatim>\<open>purpose.trim\<close> throws (no text), a cast fails or a validator rejects.
\<close>

definition Trip_create ::
  "(string \<Rightarrow> jsnum) \<Rightarrow> nat \<Rightarrow> int \<Rightarrow> nat \<Rightarrow> jsval \<Rightarrow> jsval \<Rightarrow> rawPoint list option \<Rightarrow>
   string option \<Rightarrow> trip option" where
  "Trip_create s2n newId clock uid purposeB startOdometerB routeB startLocationName =
     (case purposeB of
        JStr p \<Rightarrow>
          (case Number_js s2n startOdometerB of
             NaN \<Rightarrow> None
           | Num so \<Rightarrow>
               (case castRoute s2n (case routeB of Some r \<Rightarrow> r | None \<Rightarrow> []) of
                  None \<Rightarrow> None
                | Some r \<Rightarrow>
                    (let doc = \<lparr>tripId = newId, userId = uid, purpose = trim_js p,
                                startTime = clock, endTime = None, startOdometer = so,
                                endOdometer = None,
                                startLocation = map_option trim_js startLocationName,
                                endLocation = None, distance = 0, duration = 0, route = r,
                                status = Active, averageSpeed = 0\<rparr>
                     in if validPurpose (purpose doc) \<and> 0 \<le> so \<and> list_all validPoint r \<and>
                           validLocation (startLocation doc)
                        then Some doc else None)))
      | _ \<Rightarrow> None)"

text \<open>
  \<^verbatim>\<open>createTrip\<close> of the router with the ledger (lines 85 to 155): the presence check, the
  check for an active trip, the naming of the first point, the creation, the ledger.
\<close>

definition createTrip ::
  "world \<Rightarrow> store \<Rightarrow> nat \<Rightarrow> jsval \<Rightarrow> jsval \<Rightarrow> rawPoint list option \<Rightarrow> (error + trip) \<times> store" where
  "createTrip w s uid purposeB startOdometerB routeB =
     (if \<not> truthy purposeB \<or> \<not> truthy startOdometerB then (Inl InvalidInput, s)
      else case findActiveTrip (trips s) uid of
        Some active \<Rightarrow> (Inl Conflict, s)
      | None \<Rightarrow>
          (let g = (case routeB of
                      Some (firstPoint # rest) \<Rightarrow>
                        (case (p_latitude firstPoint, p_longitude firstPoint) of
                           (JNum la, JNum lo) \<Rightarrow>
                             reverseGeocode (cache s) (geoClock w) (upstream w) (geoClock' w)
                               (Some la) (Some lo)
                         | _ \<Rightarrow> noLookup (cache s))
                    | _ \<Rightarrow> noLookup (cache s));
               s1 = s\<lparr>cache := geoCacheAfter g\<rparr>
           in case Trip_create (StringToNumber w) (nextId s1) (now w) uid purposeB startOdometerB
                     routeB (geoName g) of
                None \<Rightarrow> (Inl ServerError, s1)
              | Some doc \<Rightarrow>
                  (let trip = preSave (machine w) doc;
                       s2 = s1\<lparr>trips := trips s1 @ [trip], nextId := Suc (nextId s1)\<rparr>;
                       s3 = s2\<lparr>userData :=
                                 ledgerStart (userData s2) uid (tripId trip) (startOdometer trip)\<rparr>
                   in (Inr trip, s3))))"

text \<open>\<^verbatim>\<open>createTrip\<close> of the older router \<^verbatim>\<open>routes/trips.js\<close>: no naming, no ledger.\<close>

definition createTrip_legacy ::
  "world \<Rightarrow> store \<Rightarrow> nat \<Rightarrow> jsval \<Rightarrow> jsval \<Rightarrow> rawPoint list option \<Rightarrow> (error + trip) \<times> store" where
  "createTrip_legacy w s uid purposeB startOdometerB routeB =
     (if \<not> truthy purposeB \<or> \<not> truthy startOdometerB then (Inl InvalidInput, s)
      else case findActiveTrip (trips s) uid of
        Some active \<Rightarrow> (Inl Conflict, s)
      | None \<Rightarrow>
          (case Trip_create (StringToNumber w) (nextId s) (now w) uid purposeB startOdometerB
                  routeB None of
             None \<Rightarrow> (Inl ServerError, s)
           | Some doc \<Rightarrow>
               (let trip = preSave (machine w) doc
                in (Inr trip, s\<lparr>trips := trips s @ [trip], nextId := Suc (nextId s)\<rparr>))))"


text \<open>
  \<^verbatim>\<open>endTrip\<close> of the router with the ledger (lines 213 to 289). The body's
  \<^verbatim>\<open>endOdometer\<close> is destructured and not read again.
\<close>

definition endTrip ::
  "world \<Rightarrow> store \<Rightarrow> nat \<Rightarrow> nat \<Rightarrow> jsval \<Rightarrow> string option \<Rightarrow> (error + trip) \<times> store" where
  "endTrip w s uid tid endOdometerBody endLoc =
     (let q = (\<lambda>t. tripId t = tid \<and> userId t = uid \<and> status t = Active)
      in case find q (trips s) of
        None \<Rightarrow> (Inl NotFound, s)
      | Some trip \<Rightarrow>
          (let roundedDistance = roundDistance (or0 (distance trip));
               computedEndOdo = startOdometer trip + roundedDistance;
               finalEndOdometer = max computedEndOdo (startOdometer trip);
               t1 = trip\<lparr>endTime := Some (now w), endOdometer := Some finalEndOdometer,
                         status := Completed\<rparr>;
               g = (if orNull endLoc \<noteq> None then noLookup (cache s)
                    else if route trip = [] then noLookup (cache s)
                    else reverseGeocode (cache s) (geoClock w) (upstream w) (geoClock' w)
                           (Some (latitude (last (route trip))))
                           (Some (longitude (last (route trip)))));
               loc = (case orNull endLoc of Some x \<Rightarrow> Some x | None \<Rightarrow> orNull (geoName g));
               t2 = (case loc of Some x \<Rightarrow> t1\<lparr>endLocation := Some (trim_js x)\<rparr> | None \<Rightarrow> t1);
               s1 = s\<lparr>cache := geoCacheAfter g\<rparr>
           in if validEndTime t2 \<and> validEndOdometer t2 \<and>
                 (loc = None \<or> validLocation (endLocation t2))
              then (let saved = preSave (machine w) t2;
                        s2 = s1\<lparr>trips := replaceFirst q saved (trips s1)\<rparr>;
                        s3 = s2\<lparr>userData := ledgerEnd (userData s2) uid roundedDistance\<rparr>
                    in (Inr saved, s3))
              else (Inl ServerError, s1)))"

text \<open>
  \<^verbatim>\<open>endTrip\<close> of the older router \<^verbatim>\<open>routes/trips.js\<close> (lines 185 to 238):
  \<^verbatim>\<open>
  if (!endOdometer) return res.status(400)...
  let trip = await Trip.findOne({ _id, userId, status: 'active' });
  if (!trip) return res.status(404)...
  if (Number(endOdometer) < trip.startOdometer) return res.status(400)...
  trip.endTime = new Date();
  trip.endOdometer = Number(endOdometer);
  trip.status = 'completed';
  if (endLocation) trip.endLocation = endLocation;
  await trip.save();
  \<close>
\<close>

definition endTrip_legacy ::
  "world \<Rightarrow> store \<Rightarrow> nat \<Rightarrow> nat \<Rightarrow> jsval \<Rightarrow> string option \<Rightarrow> (error + trip) \<times> store" where
  "endTrip_legacy w s uid tid endOdometerBody endLoc =
     (if \<not> truthy endOdometerBody then (Inl InvalidInput, s)
      else let q = (\<lambda>t. tripId t = tid \<and> userId t = uid \<and> status t = Active)
      in case find q (trips s) of
        None \<Rightarrow> (Inl NotFound, s)
      | Some trip \<Rightarrow>
          (case Number_js (StringToNumber w) endOdometerBody of
             NaN \<Rightarrow> (Inl ServerError, s)
           | Num eo \<Rightarrow>
               (if eo < startOdometer trip then (Inl InvalidInput, s)
                else let t1 = trip\<lparr>endTime := Some (now w), endOdometer := Some eo,
                                   status := Completed\<rparr>;
                         t2 = (case orNull endLoc of
                                 Some x \<Rightarrow> t1\<lparr>endLocation := Some (trim_js x)\<rparr> | None \<Rightarrow> t1)
                     in if validEndTime t2 \<and> validEndOdometer t2 \<and>
                           (orNull endLoc = None \<or> validLocation (endLocation t2))
                        then (let saved = preSave (machine w) t2
                              in (Inr saved, s\<lparr>trips := replaceFirst q saved (trips s)\<rparr>))
                        else (Inl ServerError, s))))"


text \<open>
  The append of one point. \<open>pushPoint\<close> is the part both routers share:
  \<^verbatim>\<open>
  const newPoint = { latitude: Number(latitude), longitude: Number(longitude),
                     accuracy: Number(accuracy), timestamp: Number(timestamp) };
  trip.route.push(newPoint);
  await trip.save();
  \<close>
  A \<^verbatim>\<open>NaN\<close> field fails the cast and a point out of range fails the validators.
\<close>

definition pushPoint ::
  "(string \<Rightarrow> jsnum) \<Rightarrow> ieee \<Rightarrow> trip \<Rightarrow> jsval \<Rightarrow> jsval \<Rightarrow> jsval \<Rightarrow> jsval \<Rightarrow> trip option" where
  "pushPoint s2n m trip lat lon acc ts =
     (case (Number_js s2n lat, Number_js s2n lon, Number_js s2n acc, Number_js s2n ts) of
        (Num la, Num lo, Num ac, Num t) \<Rightarrow>
          (let newPoint = \<lparr>latitude = la, longitude = lo, timestamp = t, accuracy = ac\<rparr>;
               t1 = trip\<lparr>route := route trip @ [newPoint]\<rparr>
           in if list_all validPoint (route t1) then Some (preSave m t1) else None)
      | _ \<Rightarrow> None)"

definition addRoutePoint ::
  "world \<Rightarrow> store \<Rightarrow> nat \<Rightarrow> jsval \<Rightarrow> jsval \<Rightarrow> jsval \<Rightarrow> jsval \<Rightarrow> (error + trip) \<times> store" where
  "addRoutePoint w s uid lat lon acc ts =
     (if \<not> truthy lat \<or> \<not> truthy lon \<or> \<not> truthy acc \<or> \<not> truthy ts
      then (Inl InvalidInput, s)
      else case findActiveTrip (trips s) uid of
        None \<Rightarrow> (Inl NotFound, s)
      | Some trip \<Rightarrow>
          (let s1 = s\<lparr>userData := ledgerSync (userData s) uid (tripId trip)\<rparr>
           in case pushPoint (StringToNumber w) (machine w) trip lat lon acc ts of
                None \<Rightarrow> (Inl ServerError, s1)
              | Some saved \<Rightarrow>
                  (let s2 = s1\<lparr>trips := replaceFirst (\<lambda>t. userId t = uid \<and> status t = Active)
                                           saved (trips s1)\<rparr>;
                       estDistance = roundDistance (or0 (distance saved));
                       s3 = s2\<lparr>userData :=
                                 ledgerLive (userData s2) uid (startOdometer saved + estDistance)\<rparr>
                   in (Inr saved, s3))))"

definition addRoutePoint_legacy ::
  "world \<Rightarrow> store \<Rightarrow> nat \<Rightarrow> jsval \<Rightarrow> jsval \<Rightarrow> jsval \<Rightarrow> jsval \<Rightarrow> (error + trip) \<times> store" where
  "addRoutePoint_legacy w s uid lat lon acc ts =
     (if \<not> truthy lat \<or> \<not> truthy lon \<or> \<not> truthy acc \<or> \<not> truthy ts
      then (Inl InvalidInput, s)
      else case findActiveTrip (trips s) uid of
        None \<Rightarrow> (Inl NotFound, s)
      | Some trip \<Rightarrow>
          (case pushPoint (StringToNumber w) (machine w) trip lat lon acc ts of
             None \<Rightarrow> (Inl ServerError, s)
           | Some saved \<Rightarrow>
               (Inr saved, s\<lparr>trips := replaceFirst (\<lambda>t. userId t = uid \<and> status t = Active)
                                        saved (trips s)\<rparr>)))"

text \<open>
  The bulk append. The body's \<^verbatim>\<open>points\<close> is \<open>None\<close> when it is no array. The loop keeps
  the entries whose four fields are numbers, in order:
  \<^verbatim>\<open>
  for (const p of points) {
    if (p && typeof p.latitude === 'number' && typeof p.longitude === 'number' &&
        typeof p.accuracy === 'number' && typeof p.timestamp === 'number')
      sanitized.push({ latitude: p.latitude, longitude: p.longitude,
                       accuracy: p.accuracy, timestamp: p.timestamp });
  }
  \<close>
  An entry that is no object has no such fields and is a \<open>rawPoint\<close> of undefined fields.
\<close>

fun sanitize :: "rawPoint list \<Rightarrow> tripPoint list" where
  "sanitize [] = []"
| "sanitize (p # ps) =
     (case (p_latitude p, p_longitude p, p_accuracy p, p_timestamp p) of
        (JNum la, JNum lo, JNum ac, JNum t) \<Rightarrow>
          \<lparr>latitude = la, longitude = lo, timestamp = t, accuracy = ac\<rparr> # sanitize ps
      | _ \<Rightarrow> sanitize ps)"

definition addRoutePointsBulk ::
  "world \<Rightarrow> store \<Rightarrow> nat \<Rightarrow> rawPoint list option \<Rightarrow> (error + trip) \<times> store" where
  "addRoutePointsBulk w s uid points =
     (case points of
        None \<Rightarrow> (Inl InvalidInput, s)
      | Some ps \<Rightarrow>
          (if ps = [] then (Inl InvalidInput, s)
           else case findActiveTrip (trips s) uid of
             None \<Rightarrow> (Inl NotFound, s)
           | Some trip \<Rightarrow>
               (let s1 = s\<lparr>userData := ledgerSync (userData s) uid (tripId trip)\<rparr>;
                    sanitized = sanitize ps
                in if sanitized = [] then (Inl InvalidInput, s1)
                   else let t1 = trip\<lparr>route := route trip @ sanitized\<rparr>
                        in if list_all validPoint (route t1)
                           then (let saved = preSave (machine w) t1;
                                     s2 = s1\<lparr>trips := replaceFirst
                                                (\<lambda>t. userId t = uid \<and> status t = Active)
                                                saved (trips s1)\<rparr>;
                                     estDistance = roundDistance (or0 (distance saved));
                                     s3 = s2\<lparr>userData := ledgerLive (userData s2) uid
                                                (startOdometer saved + estDistance)\<rparr>
                                 in (Inr saved, s3))
                           else (Inl ServerError, s1))))"

section \<open>Reachable stores\<close>

text \<open>
  The stores that the handlers produce from the empty one when the requests are served one
  after another, each handler running from its first statement to its response before the
  next one starts. Two requests whose steps interleave at an \<^verbatim>\<open>await\<close> are not part of
  this relation. The routes of \<^verbatim>\<open>routes/userdata.js\<close> and the registration write the
  ledger only, with any values.
\<close>

definition emptyStore :: store where
  "emptyStore = \<lparr>trips = [], userData = Map.empty, cache = Map.empty, nextId = 0\<rparr>"


section \<open>Invariants of the trip collection\<close>



section \<open>Sample data\<close>

text \<open>Concrete requests and stores on which the results below are instantiated.\<close>

definition sampleWorld :: world where
  "sampleWorld = \<lparr>now = 1000, geoClock = 1000, geoClock' = 1001, upstream = RequestError,
                   StringToNumber = (\<lambda>x. NaN), machine = exactMachine\<rparr>"

definition sampleTrip :: trip where
  "sampleTrip =
     \<lparr>tripId = 0, userId = 1, purpose = ''commute'', startTime = 1000, endTime = None,
      startOdometer = 100, endOdometer = None, startLocation = None, endLocation = None,
      distance = 0, duration = 0,
      route = [\<lparr>latitude = 10, longitude = 20, timestamp = 1, accuracy = 5\<rparr>,
               \<lparr>latitude = 11, longitude = 21, timestamp = 2, accuracy = 5\<rparr>],
      status = Active, averageSpeed = 0\<rparr>"

definition sohoBody :: upstreamResult where
  "sohoBody = Parsed (Some \<lparr>address = Some [''suburb'' \<mapsto> ''Soho''],
                             display_name = Some ''Soho, London''\<rparr>)"

definition idleTrip :: trip where
  "idleTrip = sampleTrip\<lparr>route := []\<rparr>"

definition idleStore :: store where
  "idleStore =
     snd (createTrip_legacy sampleWorld emptyStore 1 (JStr ''commute'') (JNum 100) None)"

definition ledger80 :: store where
  "ledger80 = emptyStore\<lparr>userData := [1 \<mapsto> \<lparr>currentOdometer = 80, activeTrip = None\<rparr>]\<rparr>"

text \<open>
  Two points that pass the validators and lie opposite each other on the globe, as they
  arrive in a request and as they are stored.
\<close>

definition antipodeA :: tripPoint where
  "antipodeA = \<lparr>latitude = 8, longitude = 1, timestamp = 1, accuracy = 5\<rparr>"

definition antipodeB :: tripPoint where
  "antipodeB = \<lparr>latitude = - 8, longitude = - 179, timestamp = 2, accuracy = 5\<rparr>"

definition antipodesBody :: "rawPoint list" where
  "antipodesBody =
     [\<lparr>p_latitude = JNum 8, p_longitude = JNum 1, p_accuracy = JNum 5, p_timestamp = JNum 1\<rparr>,
      \<lparr>p_latitude = JNum (- 8), p_longitude = JNum (- 179), p_accuracy = JNum 5,
       p_timestamp = JNum 2\<rparr>]"

section \<open>Results about the rounding rule\<close>

lemma or0_id: "or0 x = x"
  by (simp add: or0_def)

lemma roundDistance_unfold:
  "roundDistance d = of_int \<lfloor>d\<rfloor> + (if d - of_int \<lfloor>d\<rfloor> > 1 / 2 then 1 else 0)"
  by (simp add: roundDistance_def or0_id Let_def)

lemma roundDistance_nonneg: "0 \<le> d \<Longrightarrow> 0 \<le> roundDistance d"
  by (simp add: roundDistance_unfold)

text \<open>
  C3. For every real distance \<open>d \<ge> 0\<close> the rounding function returns \<open>floor d\<close>, plus one
  exactly when the fractional part \<open>d - floor d\<close> is strictly greater than one half
  (round-half-down): 2.5 gives 2, 2.51 gives 3, 2.0 gives 2 and 0.49 gives 0.
\<close>

theorem roundDistance_half_down:
  "0 \<le> d \<Longrightarrow>
     (d - of_int \<lfloor>d\<rfloor> > 1 / 2 \<longrightarrow> roundDistance d = of_int \<lfloor>d\<rfloor> + 1) \<and>
     (\<not> d - of_int \<lfloor>d\<rfloor> > 1 / 2 \<longrightarrow> roundDistance d = of_int \<lfloor>d\<rfloor>) \<and>
     roundDistance 2.5 = 2 \<and> roundDistance 2.51 = 3 \<and>
     roundDistance 2.0 = 2 \<and> roundDistance 0.49 = 0"
proof -
  have f1: "\<lfloor>2.5::real\<rfloor> = 2" by simp
  have f2: "\<lfloor>2.51::real\<rfloor> = 2" by simp
  have f3: "\<lfloor>0.49::real\<rfloor> = 0" by simp
  show ?thesis
    by (simp add: roundDistance_unfold f1 f2 f3)
qed

theorem roundDistance_half_down_witness:
  "(0::real) \<le> 5 / 2 \<and> \<not> (5 / 2 - of_int \<lfloor>5 / 2 :: real\<rfloor> > (1 / 2 :: real)) \<and>
   roundDistance (5 / 2) = of_int \<lfloor>5 / 2 :: real\<rfloor> \<and>
   (7 / 4 - of_int \<lfloor>7 / 4 :: real\<rfloor> > (1 / 2 :: real)) \<and>
   roundDistance (7 / 4) = of_int \<lfloor>7 / 4 :: real\<rfloor> + 1"
proof -
  have g1: "\<lfloor>5 / 2 :: real\<rfloor> = 2" by linarith
  have g2: "\<lfloor>7 / 4 :: real\<rfloor> = 1" by linarith
  have h1: "(0::real) \<le> 5 / 2" by simp
  have h2: "(0::real) \<le> 7 / 4" by simp
  show ?thesis
    using roundDistance_half_down [OF h1] roundDistance_half_down [OF h2]
    by (simp add: g1 g2)
qed

section \<open>Results about the trip collection\<close>

lemma cm_fields [simp]:
  "route (calculateMetrics m t) = route t" "endTime (calculateMetrics m t) = endTime t"
  "startTime (calculateMetrics m t) = startTime t" "status (calculateMetrics m t) = status t"
  "userId (calculateMetrics m t) = userId t" "tripId (calculateMetrics m t) = tripId t"
  "startOdometer (calculateMetrics m t) = startOdometer t"
  "endOdometer (calculateMetrics m t) = endOdometer t"
  by (simp_all add: calculateMetrics_def Let_def split: option.splits jsnum.splits)

lemma find_in_set: "find q xs = Some t \<Longrightarrow> t \<in> set xs"
  by (induction xs) (auto split: if_splits)




lemma Trip_create_fields:
  "Trip_create s2n i c uid p so r nm = Some d \<Longrightarrow>
     userId d = uid \<and> status d = Active \<and> endTime d = None \<and> duration d = 0 \<and>
     averageSpeed d = 0 \<and> list_all validPoint (route d) \<and> tripId d = i \<and> endOdometer d = None \<and>
     0 \<le> startOdometer d \<and> Number_js s2n so = Num (startOdometer d)"
  by (auto simp: Trip_create_def Let_def split: jsval.splits jsnum.splits option.splits if_splits)












section \<open>Results about the start of a trip\<close>

lemma trim_commute: "trim_js ''commute'' = ''commute''"
  by (simp add: trim_js_def isWhiteSpace_def)



text \<open>
  A purpose between two no-break spaces is trimmed to its inside; two letters are then too
  short for the schema, and the start is answered with the server error.
\<close>

lemma trim_nbsp: "trim_js [CHR 0xA0, CHR ''a'', CHR ''b'', CHR 0xA0] = ''ab''"
  by (simp add: trim_js_def isWhiteSpace_def)

lemma createTrip_nbsp_purpose:
  "createTrip w emptyStore uid (JStr [CHR 0xA0, CHR ''a'', CHR ''b'', CHR 0xA0]) (JNum 7) None =
     (Inl ServerError, emptyStore)"
  by (simp add: createTrip_def emptyStore_def findActiveTrip_def noLookup_def Trip_create_def
      trim_nbsp validPurpose_def Let_def)

lemma cm_idle: "calculateMetrics exactMachine idleTrip = idleTrip"
  by (simp add: calculateMetrics_def idleTrip_def sampleTrip_def Let_def)

lemma idleStore_eq:
  "idleStore = \<lparr>trips = [idleTrip], userData = Map.empty, cache = Map.empty, nextId = 1\<rparr>"
proof -
  have "Trip_create (\<lambda>x. NaN) 0 1000 1 (JStr ''commute'') (JNum 100) None None = Some idleTrip"
    by (simp add: Trip_create_def validPurpose_def validLocation_def trim_commute
        idleTrip_def sampleTrip_def Let_def)
  then show ?thesis
    by (simp add: idleStore_def createTrip_legacy_def sampleWorld_def emptyStore_def
        findActiveTrip_def preSave_def cm_idle Let_def)
qed


lemma idleStore_active: "findActiveTrip (trips idleStore) 1 = Some idleTrip"
  by (simp add: idleStore_eq findActiveTrip_def idleTrip_def sampleTrip_def)






section \<open>Results about the metrics\<close>

lemma hav_nan:
  "fsub m 1 (haversine_a m p q) < 0 \<Longrightarrow> calculateHaversineDistance m p q = NaN"
  by (simp add: calculateHaversineDistance_def Math_sqrt_def Let_def split: jsnum.splits)

lemma distanceLoop_two:
  "distanceLoop m [p, q] (Suc 0) (Num 0) = jsadd m (Num 0) (calculateHaversineDistance m p q)"
  by (simp add: distanceLoop.simps [of m "[p, q]" "Suc 0"]
      distanceLoop.simps [of m "[p, q]" "Suc (Suc 0)"])

lemma cm_nan:
  "calculateHaversineDistance m p q = NaN \<Longrightarrow> route t = [p, q] \<Longrightarrow> endTime t = None \<Longrightarrow>
     calculateMetrics m t = t"
  by (simp add: calculateMetrics_def distanceLoop_two Let_def)

lemma antipodes_valid: "validPoint antipodeA \<and> validPoint antipodeB"
  by (simp add: validPoint_def antipodeA_def antipodeB_def)

lemma spec_antipodes: "spec_distanceKm [antipodeA, antipodeB] = 6371 * pi"
proof -
  have e1: "(- 8 - 8) * pi / 180 / 2 = - (8 * pi / 180)" by simp
  have e2: "(- 179 - 1) * pi / 180 / 2 = - (pi / 2)" by simp
  have e3: "- 8 * pi / 180 = - (8 * pi / 180)" by simp
  have a: "(sin ((- 8 - 8) * pi / 180 / 2))\<^sup>2 +
           cos (8 * pi / 180) * cos (- 8 * pi / 180) * (sin ((- 179 - 1) * pi / 180 / 2))\<^sup>2 = 1"
    unfolding e1 e2 e3 by (simp add: power2_eq_square [symmetric])
  have "spec_haversine antipodeA antipodeB = 6371 * (2 * atan2 (sqrt 1) (sqrt (1 - 1)))"
    unfolding spec_haversine_def Let_def antipodeA_def antipodeB_def
    by (simp only: tripPoint.simps a)
  then show ?thesis
    by (simp add: spec_distanceKm_def atan2_def)
qed

text \<open>
  On the machine that computes exactly the pair has \<open>a = 1\<close> and the distance the
  specification gives; on the machine whose cosine is one part in \<open>2\<^sup>5\<^sup>2\<close> too large \<open>a\<close>
  is larger than 1.
\<close>

lemma exact_a: "haversine_a exactMachine antipodeA antipodeB = 1"
proof -
  have "haversine_a exactMachine antipodeA antipodeB =
          sin (2 * pi / 45) * sin (2 * pi / 45) + cos (2 * pi / 45) * cos (2 * pi / 45)"
    by (simp add: haversine_a_def exactMachine_def fadd_def fsub_def fmul_def
        fdiv_def Math_PI_def antipodeA_def antipodeB_def Let_def)
  then show ?thesis
    using sin_cos_squared_add3 [of "2 * pi / 45"] by linarith
qed

lemma exact_antipodes:
  "calculateHaversineDistance exactMachine antipodeA antipodeB = Num (6371 * pi)"
proof -
  have "calculateHaversineDistance exactMachine antipodeA antipodeB =
          (case (Math_sqrt exactMachine 1, Math_sqrt exactMachine (fsub exactMachine 1 1)) of
             (Num y, Num x) \<Rightarrow>
               Num (fmul exactMachine 6371 (fmul exactMachine 2 (Math_atan2 exactMachine y x)))
           | _ \<Rightarrow> NaN)"
    by (simp only: calculateHaversineDistance_def exact_a Let_def)
  then show ?thesis
    by (simp add: Math_sqrt_def fsub_def fmul_def exactMachine_def atan2_def)
qed

lemma ulp_a:
  "haversine_a ulpMachine antipodeA antipodeB =
     sin (2 * pi / 45) * sin (2 * pi / 45) +
     20282409603651679431146506027009 * (cos (2 * pi / 45) * cos (2 * pi / 45)) /
     20282409603651670423947251286016"
  by (simp add: haversine_a_def ulpMachine_def exactMachine_def fadd_def fsub_def fmul_def
      fdiv_def Math_PI_def antipodeA_def antipodeB_def Let_def)

lemma ulp_exceeds: "fsub ulpMachine 1 (haversine_a ulpMachine antipodeA antipodeB) < 0"
proof -
  have "0 < 2 * pi / 45" "2 * pi / 45 < pi / 2"
    using pi_gt_zero by simp_all
  then have c: "0 < cos (2 * pi / 45)" by (rule cos_gt_zero)
  define cc where "cc = cos (2 * pi / 45) * cos (2 * pi / 45)"
  have pos: "0 < cc" unfolding cc_def using c by simp
  have ss: "sin (2 * pi / 45) * sin (2 * pi / 45) = 1 - cc"
    unfolding cc_def using sin_cos_squared_add3 [of "2 * pi / 45"] by linarith
  have "1 < (1 - cc) + 20282409603651679431146506027009 * cc / 20282409603651670423947251286016"
    using pos by simp
  then have "1 < haversine_a ulpMachine antipodeA antipodeB"
    by (simp only: ulp_a ss cc_def [symmetric])
  then show ?thesis
    by (simp add: fsub_def ulpMachine_def exactMachine_def)
qed

text \<open>
  C4. The distance should be the sum of the haversine distances over the consecutive pairs
  of the route. For the two valid points (8, 1) and (-8, -179), which lie opposite each
  other, that sum is 6371 times pi. When the machine's \<open>a\<close> for the pair is larger than 1, the
  case of IEEE doubles, \<open>1 - a\<close> is negative, the square root and with it the distance of the
  pair is \<open>NaN\<close>, and the metrics computation leaves the distance of the trip at its old
  value, here 0.
\<close>

theorem calculateMetrics_loses_antipodal_pair:
  "fsub m 1 (haversine_a m antipodeA antipodeB) < 0 \<Longrightarrow>
     validPoint antipodeA \<and> validPoint antipodeB \<and>
     calculateHaversineDistance m antipodeA antipodeB = NaN \<and>
     calculateMetrics m (idleTrip\<lparr>route := [antipodeA, antipodeB]\<rparr>) =
       idleTrip\<lparr>route := [antipodeA, antipodeB]\<rparr> \<and>
     distance (idleTrip\<lparr>route := [antipodeA, antipodeB]\<rparr>) = 0 \<and>
     spec_distanceKm [antipodeA, antipodeB] = 6371 * pi"
proof -
  assume h: "fsub m 1 (haversine_a m antipodeA antipodeB) < 0"
  have n: "calculateHaversineDistance m antipodeA antipodeB = NaN"
    using h by (rule hav_nan)
  have k: "calculateMetrics m (idleTrip\<lparr>route := [antipodeA, antipodeB]\<rparr>) =
       idleTrip\<lparr>route := [antipodeA, antipodeB]\<rparr>"
    using n by (rule cm_nan) (simp_all add: idleTrip_def sampleTrip_def)
  have d: "distance (idleTrip\<lparr>route := [antipodeA, antipodeB]\<rparr>) = 0"
    by (simp add: idleTrip_def sampleTrip_def)
  show ?thesis using n k d antipodes_valid spec_antipodes by blast
qed

theorem calculateMetrics_loses_antipodal_pair_witness:
  "fsub ulpMachine 1 (haversine_a ulpMachine antipodeA antipodeB) < 0 \<and>
   validPoint antipodeA \<and> validPoint antipodeB \<and>
   calculateHaversineDistance ulpMachine antipodeA antipodeB = NaN \<and>
   calculateMetrics ulpMachine (idleTrip\<lparr>route := [antipodeA, antipodeB]\<rparr>) =
     idleTrip\<lparr>route := [antipodeA, antipodeB]\<rparr> \<and>
   distance (idleTrip\<lparr>route := [antipodeA, antipodeB]\<rparr>) = 0 \<and>
   spec_distanceKm [antipodeA, antipodeB] = 6371 * pi"
  using calculateMetrics_loses_antipodal_pair [OF ulp_exceeds] ulp_exceeds by blast

text \<open>
  C5. After an append the stored distance should be the one of the new route. On a store
  with one active trip of an empty route and distance 0, the bulk append of the two valid
  points (8, 1) and (-8, -179) succeeds and stores the route of two points; when the
  machine's \<open>a\<close> for the pair is larger than 1, the case of IEEE doubles, the stored distance
  is still 0, where the distance of the stored route is 6371 times pi.
\<close>

theorem bulk_append_keeps_old_distance:
  "fsub (machine w) 1 (haversine_a (machine w) antipodeA antipodeB) < 0 \<Longrightarrow>
     fst (addRoutePointsBulk w idleStore 1 (Some antipodesBody)) =
       Inr (idleTrip\<lparr>route := [antipodeA, antipodeB]\<rparr>) \<and>
     trips (snd (addRoutePointsBulk w idleStore 1 (Some antipodesBody))) =
       [idleTrip\<lparr>route := [antipodeA, antipodeB]\<rparr>] \<and>
     distance (idleTrip\<lparr>route := [antipodeA, antipodeB]\<rparr>) = 0 \<and>
     spec_distanceKm (route (idleTrip\<lparr>route := [antipodeA, antipodeB]\<rparr>)) = 6371 * pi"
proof -
  assume h: "fsub (machine w) 1 (haversine_a (machine w) antipodeA antipodeB) < 0"
  have n: "calculateHaversineDistance (machine w) antipodeA antipodeB = NaN"
    using h by (rule hav_nan)
  have k: "calculateMetrics (machine w) (idleTrip\<lparr>route := [antipodeA, antipodeB]\<rparr>) =
       idleTrip\<lparr>route := [antipodeA, antipodeB]\<rparr>"
    using n by (rule cm_nan) (simp_all add: idleTrip_def sampleTrip_def)
  have sa: "sanitize antipodesBody = [antipodeA, antipodeB]"
    by (simp add: antipodesBody_def antipodeA_def antipodeB_def)
  have r0: "route idleTrip = []"
    by (simp add: idleTrip_def)
  have v: "list_all validPoint [antipodeA, antipodeB]"
    using antipodes_valid by simp
  have nz: "antipodesBody \<noteq> []"
    by (simp add: antipodesBody_def)
  have b: "addRoutePointsBulk w idleStore 1 (Some antipodesBody) =
      (Inr (idleTrip\<lparr>route := [antipodeA, antipodeB]\<rparr>),
       idleStore\<lparr>userData := ledgerSync (userData idleStore) 1 (tripId idleTrip),
                 trips := [idleTrip\<lparr>route := [antipodeA, antipodeB]\<rparr>],
                 userData := ledgerLive (ledgerSync (userData idleStore) 1 (tripId idleTrip)) 1
                    (startOdometer idleTrip + roundDistance (or0 0))\<rparr>)"
    using idleStore_active nz v
    apply (simp add: addRoutePointsBulk_def sa r0 preSave_def k Let_def)
    apply (simp add: idleStore_eq idleTrip_def sampleTrip_def)
    done
  show ?thesis using b spec_antipodes by (simp add: idleTrip_def sampleTrip_def)
qed

theorem bulk_append_keeps_old_distance_witness:
  "fsub (machine (sampleWorld\<lparr>machine := ulpMachine\<rparr>)) 1
     (haversine_a (machine (sampleWorld\<lparr>machine := ulpMachine\<rparr>)) antipodeA antipodeB) < 0 \<and>
   fst (addRoutePointsBulk (sampleWorld\<lparr>machine := ulpMachine\<rparr>) idleStore 1 (Some antipodesBody)) =
     Inr (idleTrip\<lparr>route := [antipodeA, antipodeB]\<rparr>) \<and>
   trips (snd (addRoutePointsBulk (sampleWorld\<lparr>machine := ulpMachine\<rparr>) idleStore 1
                 (Some antipodesBody))) =
     [idleTrip\<lparr>route := [antipodeA, antipodeB]\<rparr>] \<and>
   distance (idleTrip\<lparr>route := [antipodeA, antipodeB]\<rparr>) = 0 \<and>
   spec_distanceKm (route (idleTrip\<lparr>route := [antipodeA, antipodeB]\<rparr>)) = 6371 * pi"
proof -
  have h: "fsub (machine (sampleWorld\<lparr>machine := ulpMachine\<rparr>)) 1
     (haversine_a (machine (sampleWorld\<lparr>machine := ulpMachine\<rparr>)) antipodeA antipodeB) < 0"
    using ulp_exceeds by simp
  show ?thesis
    using bulk_append_keeps_old_distance [OF h] h by blast
qed

section \<open>Results about the reverse-geocoding cache\<close>

lemma showNat_numeral:
  "showNat (numeral k) =
     (if (numeral k :: nat) < 10 then [digitChar (numeral k)]
      else showNat (numeral k div 10) @ [digitChar (numeral k mod 10)])"
  by (rule showNat.simps)

lemma showNat_small: "n < 10 \<Longrightarrow> showNat n = [digitChar n]"
  by (simp add: showNat.simps [of n])

lemma replicate_num: "replicate (numeral k) x = x # replicate (pred_numeral k) x"
  by (simp add: numeral_eq_Suc)

lemmas toFixed5_eval = toFixed5_def Let_def showNat_numeral showNat_small digitChar_def replicate_num


lemma key1: "cacheKey 0.000004 0 = ''0.00000,0.00000''"
  by (simp add: cacheKey_def toFixed5_eval)

lemma key2: "cacheKey 0.000006 0 = ''0.00001,0.00000''"
  by (simp add: cacheKey_def toFixed5_eval)

lemma key3: "cacheKey 51.500004 (- 0.120001) = cacheKey 51.5 (- 0.12)"
  by (simp add: cacheKey_def toFixed5_eval)

lemma lookup_by_key:
  "cacheKey la lo = k \<Longrightarrow>
   reverseGeocode c t u t' (Some la) (Some lo) =
     (case orNull (case c k of
                     Some e \<Rightarrow> (if t - timestamp_ms e < CACHE_TTL_MS then Some (name e) else None)
                   | None \<Rightarrow> None) of
        Some cached \<Rightarrow> \<lparr>geoName = Some cached, geoCacheAfter = c, askedUpstream = False\<rparr>
      | None \<Rightarrow>
          \<lparr>geoName = extractName (fetchJson u),
           geoCacheAfter = (case orNull (extractName (fetchJson u)) of
                              Some x \<Rightarrow> c(k \<mapsto> \<lparr>name = x, timestamp_ms = t'\<rparr>)
                            | None \<Rightarrow> c),
           askedUpstream = True\<rparr>)"
  by (auto simp: reverseGeocode_def getCached_def setCache_def Let_def split: option.splits)

lemma orNull_idem: "orNull (orNull v) = orNull v"
  by (simp add: orNull_def split: option.splits)

lemma orNull_Some: "orNull v = Some x \<Longrightarrow> v = Some x \<and> x \<noteq> []"
  by (simp add: orNull_def split: option.splits if_splits)

lemma firstField_truthy: "firstField a fs = Some x \<Longrightarrow> x \<noteq> []"
  by (induction fs) (auto split: option.splits dest: orNull_Some)

lemma extractName_truthy: "extractName j = Some x \<Longrightarrow> x \<noteq> []"
  by (auto simp: extractName_def split: option.splits dest: orNull_Some firstField_truthy)

lemma orNull_extractName: "orNull (extractName j) = extractName j"
  by (cases "extractName j") (auto simp: orNull_def dest: extractName_truthy)

lemma extractName_None: "extractName None = None"
  by (simp add: extractName_def)

lemma miss_persists:
  "orNull (getCached c t1 la lo) = None \<Longrightarrow> t1 \<le> t3 \<Longrightarrow> orNull (getCached c t3 la lo) = None"
  by (auto simp: getCached_def orNull_def split: option.splits if_splits)

lemma reverseGeocode_miss:
  "orNull (getCached c t la lo) = None \<Longrightarrow>
     askedUpstream (reverseGeocode c t u t' (Some la) (Some lo))"
  by (simp add: reverseGeocode_def Let_def)

text \<open>
  C10. A call of \<open>reverseGeocode\<close> that ends with no name (the request failed, the body
  did not parse, or no name could be taken from the answer) leaves the cache as it was, so
  that every later lookup of the same coordinates asks the upstream service again; only a
  lookup that yields a name writes an entry.
\<close>

theorem no_name_no_cache_write:
  "geoName (reverseGeocode c t1 u t2 lat lon) = None \<Longrightarrow>
     geoCacheAfter (reverseGeocode c t1 u t2 lat lon) = c \<and>
     (\<forall>la lo t3 u' t4. lat = Some la \<and> lon = Some lo \<and> t1 \<le> t3 \<longrightarrow>
        askedUpstream (reverseGeocode (geoCacheAfter (reverseGeocode c t1 u t2 lat lon))
                         t3 u' t4 (Some la) (Some lo)))"
proof (intro conjI allI impI)
  assume n: "geoName (reverseGeocode c t1 u t2 lat lon) = None"
  show unchanged: "geoCacheAfter (reverseGeocode c t1 u t2 lat lon) = c"
    using n
    by (auto simp: reverseGeocode_def Let_def orNull_extractName split: option.splits)
  fix la lo t3 u' t4
  assume h: "lat = Some la \<and> lon = Some lo \<and> t1 \<le> t3"
  have "orNull (getCached c t1 la lo) = None"
    using n h by (auto simp: reverseGeocode_def Let_def split: option.splits)
  then have "orNull (getCached c t3 la lo) = None"
    using h miss_persists by blast
  then show "askedUpstream (reverseGeocode (geoCacheAfter (reverseGeocode c t1 u t2 lat lon))
                         t3 u' t4 (Some la) (Some lo))"
    unfolding unchanged by (rule reverseGeocode_miss)
qed

lemma write_needs_name:
  "geoCacheAfter (reverseGeocode c t1 u t2 lat lon) \<noteq> c \<Longrightarrow>
     geoName (reverseGeocode c t1 u t2 lat lon) \<noteq> None \<and>
     askedUpstream (reverseGeocode c t1 u t2 lat lon)"
  by (auto simp: reverseGeocode_def Let_def orNull_extractName split: option.splits)

lemma failure_gives_no_name:
  "orNull (getCached c t1 la lo) = None \<Longrightarrow> u = RequestError \<or> u = Unparseable \<or> u = Parsed None \<Longrightarrow>
     reverseGeocode c t1 u t2 (Some la) (Some lo) =
       \<lparr>geoName = None, geoCacheAfter = c, askedUpstream = True\<rparr>"
  by (auto simp: reverseGeocode_def Let_def fetchJson_def extractName_None orNull_def)

lemma extract_soho: "extractName (fetchJson sohoBody) = Some ''Soho''"
  by (simp add: sohoBody_def fetchJson_def extractName_def nameFields_def orNull_def)

lemma first_lookup:
  "reverseGeocode Map.empty t sohoBody t' (Some la) (Some lo) =
     \<lparr>geoName = Some ''Soho'',
      geoCacheAfter = [cacheKey la lo \<mapsto> \<lparr>name = ''Soho'', timestamp_ms = t'\<rparr>],
      askedUpstream = True\<rparr>"
  by (simp add: reverseGeocode_def getCached_def extract_soho setCache_def Let_def orNull_def)

theorem no_name_no_cache_write_witness:
  "geoName (reverseGeocode Map.empty 1000 RequestError 1001 (Some 51.5) (Some (- 0.12))) = None \<and>
   geoCacheAfter (reverseGeocode Map.empty 1000 RequestError 1001 (Some 51.5) (Some (- 0.12)))
     = Map.empty \<and>
   (1000::int) \<le> 2000 \<and>
   askedUpstream
     (reverseGeocode
        (geoCacheAfter (reverseGeocode Map.empty 1000 RequestError 1001 (Some 51.5) (Some (- 0.12))))
        2000 sohoBody 2001 (Some 51.5) (Some (- 0.12)))"
proof -
  have h: "geoName (reverseGeocode Map.empty 1000 RequestError 1001 (Some 51.5) (Some (- 0.12))) = None"
    by (simp add: reverseGeocode_def getCached_def orNull_def fetchJson_def extractName_def Let_def)
  have le: "(1000::int) \<le> 2000" by simp
  show ?thesis
    using no_name_no_cache_write [OF h] h le by blast
qed

theorem cache_nearby_coordinates_counterexample:
  "\<bar>0.000004 - 0.000006\<bar> < (0.00001::real) \<and> \<bar>0 - 0\<bar> < (0.00001::real) \<and>
   reverseGeocode Map.empty 0 sohoBody 0 (Some 0.000004) (Some 0) =
     \<lparr>geoName = Some ''Soho'',
      geoCacheAfter = [''0.00000,0.00000'' \<mapsto> \<lparr>name = ''Soho'', timestamp_ms = 0\<rparr>],
      askedUpstream = True\<rparr> \<and>
   (1::int) - 0 < CACHE_TTL_MS \<and>
   reverseGeocode [''0.00000,0.00000'' \<mapsto> \<lparr>name = ''Soho'', timestamp_ms = 0\<rparr>]
       1 RequestError 1 (Some 0.000006) (Some 0) =
     \<lparr>geoName = None,
      geoCacheAfter = [''0.00000,0.00000'' \<mapsto> \<lparr>name = ''Soho'', timestamp_ms = 0\<rparr>],
      askedUpstream = True\<rparr>"
proof -
  have a: "\<bar>0.000004 - 0.000006\<bar> < (0.00001::real)" by simp
  have b: "reverseGeocode Map.empty 0 sohoBody 0 (Some 0.000004) (Some 0) =
     \<lparr>geoName = Some ''Soho'',
      geoCacheAfter = [''0.00000,0.00000'' \<mapsto> \<lparr>name = ''Soho'', timestamp_ms = 0\<rparr>],
      askedUpstream = True\<rparr>"
    by (simp only: lookup_by_key [OF key1]) (simp add: extract_soho orNull_def)
  have c: "(1::int) - 0 < CACHE_TTL_MS" by (simp add: CACHE_TTL_MS_def)
  have d: "reverseGeocode [''0.00000,0.00000'' \<mapsto> \<lparr>name = ''Soho'', timestamp_ms = 0\<rparr>]
       1 RequestError 1 (Some 0.000006) (Some 0) =
     \<lparr>geoName = None,
      geoCacheAfter = [''0.00000,0.00000'' \<mapsto> \<lparr>name = ''Soho'', timestamp_ms = 0\<rparr>],
      askedUpstream = True\<rparr>"
    by (simp only: lookup_by_key [OF key2])
       (simp add: fetchJson_def extractName_def orNull_def)
  show ?thesis using a b c d by simp
qed

text \<open>
  C9, amended. Two lookups share a cache entry when their coordinates print the same under
  \<open>toFixed(5)\<close>, that is when they have the same \<open>cacheKey\<close>; coordinates less than 0.00001
  degrees apart may print differently (0.000004 and 0.000006 do). For two lookups with the
  same key, when the first has cached a name and the second reads the clock less than six
  hours after the entry was written, the second returns that name without asking the
  upstream service; six hours or more after, it asks again.
\<close>

theorem cache_hit_same_key:
  assumes "r1 = reverseGeocode c t1 u t2 (Some la) (Some lo)"
    and "askedUpstream r1" and "geoName r1 = Some n"
    and "cacheKey la' lo' = cacheKey la lo"
  shows "(t3 - t2 < CACHE_TTL_MS \<longrightarrow>
           reverseGeocode (geoCacheAfter r1) t3 u' t4 (Some la') (Some lo') =
             \<lparr>geoName = Some n, geoCacheAfter = geoCacheAfter r1, askedUpstream = False\<rparr>) \<and>
         (CACHE_TTL_MS \<le> t3 - t2 \<longrightarrow>
           askedUpstream (reverseGeocode (geoCacheAfter r1) t3 u' t4 (Some la') (Some lo')))"
proof -
  have miss: "orNull (getCached c t1 la lo) = None"
    using assms(1,2) by (auto simp: reverseGeocode_def Let_def split: option.splits)
  then have nm: "extractName (fetchJson u) = Some n"
    using assms(1,3) by (simp add: reverseGeocode_def Let_def)
  then have ne: "n \<noteq> []" by (rule extractName_truthy)
  have after: "geoCacheAfter r1 = setCache c t2 la lo n"
    using assms(1) miss nm ne by (simp add: reverseGeocode_def Let_def orNull_def)
  have g: "getCached (geoCacheAfter r1) t3 la' lo' =
             (if t3 - t2 < CACHE_TTL_MS then Some n else None)"
    by (simp add: after getCached_def setCache_def assms(4))
  show ?thesis
    using ne by (simp add: reverseGeocode_def g orNull_def Let_def)
qed

theorem cache_hit_same_key_witness:
  "askedUpstream (reverseGeocode Map.empty 0 sohoBody 10 (Some 51.5) (Some (- 0.12))) \<and>
   geoName (reverseGeocode Map.empty 0 sohoBody 10 (Some 51.5) (Some (- 0.12))) = Some ''Soho'' \<and>
   cacheKey 51.500004 (- 0.120001) = cacheKey 51.5 (- 0.12) \<and>
   (1000::int) - 10 < CACHE_TTL_MS \<and>
   reverseGeocode (geoCacheAfter (reverseGeocode Map.empty 0 sohoBody 10 (Some 51.5) (Some (- 0.12))))
       1000 RequestError 1001 (Some 51.500004) (Some (- 0.120001)) =
     \<lparr>geoName = Some ''Soho'',
      geoCacheAfter = geoCacheAfter (reverseGeocode Map.empty 0 sohoBody 10 (Some 51.5) (Some (- 0.12))),
      askedUpstream = False\<rparr> \<and>
   CACHE_TTL_MS \<le> (21600010::int) - 10 \<and>
   askedUpstream
     (reverseGeocode (geoCacheAfter (reverseGeocode Map.empty 0 sohoBody 10 (Some 51.5) (Some (- 0.12))))
        21600010 RequestError 21600011 (Some 51.500004) (Some (- 0.120001)))"
proof -
  have a: "askedUpstream (reverseGeocode Map.empty 0 sohoBody 10 (Some 51.5) (Some (- 0.12)))"
    by (simp only: first_lookup) simp
  have b: "geoName (reverseGeocode Map.empty 0 sohoBody 10 (Some 51.5) (Some (- 0.12))) = Some ''Soho''"
    by (simp only: first_lookup) simp
  have t: "(1000::int) - 10 < CACHE_TTL_MS" "CACHE_TTL_MS \<le> (21600010::int) - 10"
    by (simp_all add: CACHE_TTL_MS_def)
  note h1 = cache_hit_same_key [OF refl a b key3, of 1000 RequestError 1001]
  note h2 = cache_hit_same_key [OF refl a b key3, of 21600010 RequestError 21600011]
  show ?thesis
    using h1 h2 a b t key3 by blast
qed

section \<open>Results about the end of a trip\<close>

text \<open>
  The router with the ledger computes the final odometer itself: a successful \<open>endTrip\<close>
  stores the larger of the start odometer and the start odometer plus the rounded stored
  distance, which is the latter for a distance that is not negative, whatever the body's
  \<open>endOdometer\<close> is.
\<close>

lemma endTrip_computes_odometer:
  assumes "endTrip w s uid tid eo el = (Inr t, s')"
  shows "endTrip w s uid tid eo' el = endTrip w s uid tid eo el \<and>
         (\<exists>trip. find (\<lambda>t. tripId t = tid \<and> userId t = uid \<and> status t = Active) (trips s) =
                   Some trip \<and>
                 startOdometer t = startOdometer trip \<and>
                 endOdometer t =
                   Some (max (startOdometer trip + roundDistance (distance trip))
                             (startOdometer trip)) \<and>
                 (0 \<le> distance trip \<longrightarrow>
                    endOdometer t = Some (startOdometer t + roundDistance (distance trip))))"
proof
  show "endTrip w s uid tid eo' el = endTrip w s uid tid eo el"
    by (simp add: endTrip_def)
  let ?q = "\<lambda>t. tripId t = tid \<and> userId t = uid \<and> status t = Active"
  obtain trip where f: "find ?q (trips s) = Some trip"
    using assms by (auto simp: endTrip_def Let_def split: option.splits)
  have e: "endOdometer t =
             Some (max (startOdometer trip + roundDistance (distance trip)) (startOdometer trip)) \<and>
           startOdometer t = startOdometer trip"
    using assms f
    by (auto simp: endTrip_def Let_def or0_id preSave_def split: option.splits if_splits)
  have "0 \<le> distance trip \<Longrightarrow>
          max (startOdometer trip + roundDistance (distance trip)) (startOdometer trip) =
          startOdometer trip + roundDistance (distance trip)"
    using roundDistance_nonneg [of "distance trip"] by (simp add: max_def)
  then show "\<exists>trip. find ?q (trips s) = Some trip \<and> startOdometer t = startOdometer trip \<and>
      endOdometer t =
        Some (max (startOdometer trip + roundDistance (distance trip)) (startOdometer trip)) \<and>
      (0 \<le> distance trip \<longrightarrow>
         endOdometer t = Some (startOdometer t + roundDistance (distance trip)))"
    using f e by auto
qed

section \<open>Results about the handlers on concrete requests and the ledger\<close>

text \<open>
  C1. Ending an active trip should store the start odometer plus the rounded distance and
  never a value of the client. The older router does otherwise: on a store with one active
  trip of start odometer 100 and an empty route, the body \<open>{endOdometer: 500}\<close> makes it
  store 500, where the start odometer plus the rounded distance is 100; the router with
  the ledger stores 100 on the same request.
\<close>

theorem endTrip_legacy_stores_client_odometer:
  "fst (endTrip_legacy (sampleWorld\<lparr>now := 61000\<rparr>) idleStore 1 0 (JNum 500) None) =
     Inr (idleTrip\<lparr>endTime := Some 61000, endOdometer := Some 500, status := Completed,
                   duration := 60\<rparr>) \<and>
   startOdometer idleTrip + roundDistance (distance idleTrip) = 100 \<and>
   fst (endTrip (sampleWorld\<lparr>now := 61000\<rparr>) idleStore 1 0 (JNum 500) None) =
     Inr (idleTrip\<lparr>endTime := Some 61000, endOdometer := Some 100, status := Completed,
                   duration := 60\<rparr>)"
proof -
  have f: "find (\<lambda>t. tripId t = 0 \<and> userId t = 1 \<and> status t = Active) (trips idleStore) = Some idleTrip"
    by (simp add: idleStore_eq idleTrip_def sampleTrip_def)
  have a: "fst (endTrip_legacy (sampleWorld\<lparr>now := 61000\<rparr>) idleStore 1 0 (JNum 500) None) =
     Inr (idleTrip\<lparr>endTime := Some 61000, endOdometer := Some 500, status := Completed,
                   duration := 60\<rparr>)"
    using f by (simp add: endTrip_legacy_def sampleWorld_def orNull_def validEndTime_def
        validEndOdometer_def preSave_def calculateMetrics_def exactMachine_def fdiv_def fmul_def
        idleTrip_def sampleTrip_def Let_def)
  have b: "startOdometer idleTrip + roundDistance (distance idleTrip) = 100"
    by (simp add: idleTrip_def sampleTrip_def roundDistance_unfold)
  have c: "fst (endTrip (sampleWorld\<lparr>now := 61000\<rparr>) idleStore 1 0 (JNum 500) None) =
     Inr (idleTrip\<lparr>endTime := Some 61000, endOdometer := Some 100, status := Completed,
                   duration := 60\<rparr>)"
    using f by (simp add: endTrip_def sampleWorld_def orNull_def validEndTime_def noLookup_def
        validEndOdometer_def preSave_def calculateMetrics_def exactMachine_def fdiv_def fmul_def
        idleTrip_def sampleTrip_def roundDistance_unfold or0_id Let_def)
  show ?thesis using a b c by blast
qed

text \<open>
  C6. A start with a valid purpose and the odometer 0 should succeed. Both routers reject
  it as invalid input, on every store, because the presence check \<open>!startOdometer\<close> takes
  the number 0 for a missing value; the creation itself would accept it.
\<close>

theorem createTrip_rejects_zero_odometer:
  "createTrip w s uid (JStr ''commute'') (JNum 0) r = (Inl InvalidInput, s) \<and>
   createTrip_legacy w s uid (JStr ''commute'') (JNum 0) r = (Inl InvalidInput, s) \<and>
   Trip_create s2n i c uid (JStr ''commute'') (JNum 0) None None \<noteq> None"
  by (simp add: createTrip_def createTrip_legacy_def Trip_create_def validPurpose_def
      validLocation_def trim_commute Let_def)

theorem createTrip_rejects_zero_odometer_witness:
  "createTrip sampleWorld emptyStore 1 (JStr ''commute'') (JNum 0) None =
     (Inl InvalidInput, emptyStore) \<and>
   createTrip_legacy sampleWorld emptyStore 1 (JStr ''commute'') (JNum 0) None =
     (Inl InvalidInput, emptyStore) \<and>
   Trip_create (\<lambda>x. NaN) 0 1000 1 (JStr ''commute'') (JNum 0) None None \<noteq> None \<and>
   findActiveTrip (trips emptyStore) 1 = None"
proof -
  have n: "findActiveTrip (trips emptyStore) 1 = None"
    by (simp add: emptyStore_def findActiveTrip_def)
  show ?thesis
    using createTrip_rejects_zero_odometer [where w = sampleWorld and s = emptyStore and uid = 1
        and r = None and ?s2n = "\<lambda>x. NaN" and i = 0 and c = 1000] n
    by blast
qed

text \<open>
  C7. A point with latitude 0, longitude 0 or accuracy 0 is well formed and should be
  appended. The append of one point rejects it as invalid input, on every store, because
  its presence check takes the number 0 for a missing value; the bulk append keeps the
  same point, and the validators accept it.
\<close>

theorem addRoutePoint_rejects_zero_fields:
  "addRoutePoint w s uid (JNum 0) lon acc ts = (Inl InvalidInput, s) \<and>
   addRoutePoint w s uid lat (JNum 0) acc ts = (Inl InvalidInput, s) \<and>
   addRoutePoint w s uid lat lon (JNum 0) ts = (Inl InvalidInput, s) \<and>
   addRoutePoint_legacy w s uid (JNum 0) lon acc ts = (Inl InvalidInput, s) \<and>
   sanitize [\<lparr>p_latitude = JNum 0, p_longitude = JNum 0, p_accuracy = JNum 0,
              p_timestamp = JNum 1700000000000\<rparr>] =
     [\<lparr>latitude = 0, longitude = 0, timestamp = 1700000000000, accuracy = 0\<rparr>] \<and>
   validPoint \<lparr>latitude = 0, longitude = 0, timestamp = 1700000000000, accuracy = 0\<rparr>"
  by (simp add: addRoutePoint_def addRoutePoint_legacy_def validPoint_def)

theorem addRoutePoint_rejects_zero_fields_witness:
  "findActiveTrip (trips idleStore) 1 = Some idleTrip \<and>
   addRoutePoint sampleWorld idleStore 1 (JNum 0) (JNum 10) (JNum 5) (JNum 1700000000000) =
     (Inl InvalidInput, idleStore) \<and>
   addRoutePoint sampleWorld idleStore 1 (JNum 10) (JNum 0) (JNum 5) (JNum 1700000000000) =
     (Inl InvalidInput, idleStore) \<and>
   addRoutePoint sampleWorld idleStore 1 (JNum 10) (JNum 20) (JNum 0) (JNum 1700000000000) =
     (Inl InvalidInput, idleStore) \<and>
   fst (addRoutePointsBulk sampleWorld idleStore 1
          (Some [\<lparr>p_latitude = JNum 0, p_longitude = JNum 0, p_accuracy = JNum 0,
                   p_timestamp = JNum 1700000000000\<rparr>])) =
     Inr (idleTrip\<lparr>route := [\<lparr>latitude = 0, longitude = 0, timestamp = 1700000000000,
                                  accuracy = 0\<rparr>]\<rparr>)"
proof -
  have f: "findActiveTrip (trips idleStore) 1 = Some idleTrip"
    by (simp add: idleStore_eq findActiveTrip_def idleTrip_def sampleTrip_def)
  note z = addRoutePoint_rejects_zero_fields [where w = sampleWorld and s = idleStore
      and uid = 1 and lon = "JNum 10" and acc = "JNum 5" and ts = "JNum 1700000000000"
      and lat = "JNum 10"]
  note z' = addRoutePoint_rejects_zero_fields [where w = sampleWorld and s = idleStore
      and uid = 1 and lon = "JNum 20" and acc = "JNum 5" and ts = "JNum 1700000000000"
      and lat = "JNum 10"]
  have b: "fst (addRoutePointsBulk sampleWorld idleStore 1
          (Some [\<lparr>p_latitude = JNum 0, p_longitude = JNum 0, p_accuracy = JNum 0,
                   p_timestamp = JNum 1700000000000\<rparr>])) =
     Inr (idleTrip\<lparr>route := [\<lparr>latitude = 0, longitude = 0, timestamp = 1700000000000,
                                  accuracy = 0\<rparr>]\<rparr>)"
    using f
    by (simp add: addRoutePointsBulk_def validPoint_def preSave_def calculateMetrics_def
        idleTrip_def sampleTrip_def Let_def)
  show ?thesis using f z z' b by blast
qed

text \<open>
  The router with the ledger: after every successful start the user's ledger record has
  the new trip as its active trip and a current odometer equal to the maximum of the
  previous one (zero when there was no record) and the trip's start odometer, which is the
  number read from the request. From 80, a start at 100 gives 100 and a start at 50 leaves
  80.
\<close>

lemma createTrip_raises_floor:
  assumes "createTrip w s uid p so r = (Inr t, s')"
  shows "map_option activeTrip (userData s' uid) = Some (Some (tripId t)) \<and>
         map_option currentOdometer (userData s' uid) =
           Some (max (case userData s uid of None \<Rightarrow> 0 | Some u \<Rightarrow> currentOdometer u)
                     (startOdometer t)) \<and>
         Number_js (StringToNumber w) so = Num (startOdometer t) \<and>
         (\<forall>u. userData s uid = Some u \<longrightarrow>
            map_option (\<lambda>u'. currentOdometer u \<le> currentOdometer u') (userData s' uid) = Some True)"
proof -
  let ?g = "case r of
              Some (firstPoint # rest) \<Rightarrow>
                (case (p_latitude firstPoint, p_longitude firstPoint) of
                   (JNum la, JNum lo) \<Rightarrow>
                     reverseGeocode (cache s) (geoClock w) (upstream w) (geoClock' w)
                       (Some la) (Some lo)
                 | _ \<Rightarrow> noLookup (cache s))
            | _ \<Rightarrow> noLookup (cache s)"
  from assms obtain d where
    d: "Trip_create (StringToNumber w) (nextId s) (now w) uid p so r (geoName ?g) = Some d"
    and t: "t = preSave (machine w) d"
    and s': "userData s' = ledgerStart (userData s) uid (tripId t) (startOdometer t)"
    by (auto simp: createTrip_def Let_def split: if_splits option.splits)
  have so: "Number_js (StringToNumber w) so = Num (startOdometer t)" "0 \<le> startOdometer t"
    using Trip_create_fields [OF d] t by (simp_all add: preSave_def)
  show ?thesis
    using so by (auto simp: s' ledgerStart_def max_def split: option.splits)
qed

lemma createTrip_raises_floor_examples:
  "createTrip sampleWorld ledger80 1 (JStr ''commute'') (JNum 100) None =
     (Inr idleTrip, snd (createTrip sampleWorld ledger80 1 (JStr ''commute'') (JNum 100) None)) \<and>
   map_option activeTrip
     (userData (snd (createTrip sampleWorld ledger80 1 (JStr ''commute'') (JNum 100) None)) 1) =
     Some (Some 0) \<and>
   map_option currentOdometer
     (userData (snd (createTrip sampleWorld ledger80 1 (JStr ''commute'') (JNum 100) None)) 1) =
     Some 100 \<and>
   createTrip sampleWorld ledger80 1 (JStr ''commute'') (JNum 50) None =
     (Inr (idleTrip\<lparr>startOdometer := 50\<rparr>),
      snd (createTrip sampleWorld ledger80 1 (JStr ''commute'') (JNum 50) None)) \<and>
   map_option currentOdometer
     (userData (snd (createTrip sampleWorld ledger80 1 (JStr ''commute'') (JNum 50) None)) 1) =
     Some 80"
proof -
  have c1: "Trip_create (\<lambda>x. NaN) 0 1000 1 (JStr ''commute'') (JNum 100) None None = Some idleTrip"
    by (simp add: Trip_create_def validPurpose_def validLocation_def trim_commute
        idleTrip_def sampleTrip_def Let_def)
  have c2: "Trip_create (\<lambda>x. NaN) 0 1000 1 (JStr ''commute'') (JNum 50) None None =
      Some (idleTrip\<lparr>startOdometer := 50\<rparr>)"
    by (simp add: Trip_create_def validPurpose_def validLocation_def trim_commute
        idleTrip_def sampleTrip_def Let_def)
  have m2: "calculateMetrics exactMachine (idleTrip\<lparr>startOdometer := 50\<rparr>) =
      idleTrip\<lparr>startOdometer := 50\<rparr>"
    by (simp add: calculateMetrics_def idleTrip_def sampleTrip_def Let_def)
  have e1: "fst (createTrip sampleWorld ledger80 1 (JStr ''commute'') (JNum 100) None) = Inr idleTrip"
    using c1
    by (simp add: createTrip_def ledger80_def emptyStore_def sampleWorld_def findActiveTrip_def
        noLookup_def preSave_def cm_idle Let_def)
  have e2: "fst (createTrip sampleWorld ledger80 1 (JStr ''commute'') (JNum 50) None) =
      Inr (idleTrip\<lparr>startOdometer := 50\<rparr>)"
    using c2
    by (simp add: createTrip_def ledger80_def emptyStore_def sampleWorld_def findActiveTrip_def
        noLookup_def preSave_def m2 Let_def)
  have p1: "createTrip sampleWorld ledger80 1 (JStr ''commute'') (JNum 100) None =
     (Inr idleTrip, snd (createTrip sampleWorld ledger80 1 (JStr ''commute'') (JNum 100) None))"
    using e1 by (metis prod.collapse)
  have p2: "createTrip sampleWorld ledger80 1 (JStr ''commute'') (JNum 50) None =
     (Inr (idleTrip\<lparr>startOdometer := 50\<rparr>),
      snd (createTrip sampleWorld ledger80 1 (JStr ''commute'') (JNum 50) None))"
    using e2 by (metis prod.collapse)
  have v: "userData ledger80 1 = Some \<lparr>currentOdometer = 80, activeTrip = None\<rparr>"
    "tripId idleTrip = 0" "startOdometer idleTrip = 100"
    by (simp_all add: ledger80_def emptyStore_def idleTrip_def sampleTrip_def)
  have r1: "map_option activeTrip
     (userData (snd (createTrip sampleWorld ledger80 1 (JStr ''commute'') (JNum 100) None)) 1) =
     Some (Some 0)"
    using createTrip_raises_floor [OF p1] v by simp
  have r2: "map_option currentOdometer
     (userData (snd (createTrip sampleWorld ledger80 1 (JStr ''commute'') (JNum 100) None)) 1) =
     Some 100"
    using createTrip_raises_floor [OF p1] v by simp
  have r3: "map_option currentOdometer
     (userData (snd (createTrip sampleWorld ledger80 1 (JStr ''commute'') (JNum 50) None)) 1) =
     Some 80"
    using createTrip_raises_floor [OF p2] v by simp
  show ?thesis using p1 p2 r1 r2 r3 by blast
qed

text \<open>
  C8. After a successful start the ledger should hold the new trip as the active trip and
  a current odometer raised to the start odometer. The older router writes no ledger at
  all: every successful start it serves leaves the ledger as it was. With a ledger at 80, a
  start at 100 succeeds there and leaves the current odometer at 80 and no active trip,
  where the router with the ledger sets 100 and the new trip.
\<close>

theorem createTrip_legacy_leaves_ledger:
  "createTrip_legacy w s uid p so r = (Inr t, s') \<Longrightarrow> userData s' = userData s"
  by (auto simp: createTrip_legacy_def Let_def split: if_splits option.splits)

theorem createTrip_legacy_leaves_ledger_witness:
  "createTrip_legacy sampleWorld ledger80 1 (JStr ''commute'') (JNum 100) None =
     (Inr idleTrip, snd (createTrip_legacy sampleWorld ledger80 1 (JStr ''commute'') (JNum 100) None)) \<and>
   userData (snd (createTrip_legacy sampleWorld ledger80 1 (JStr ''commute'') (JNum 100) None)) 1 =
     Some \<lparr>currentOdometer = 80, activeTrip = None\<rparr> \<and>
   map_option currentOdometer
     (userData (snd (createTrip sampleWorld ledger80 1 (JStr ''commute'') (JNum 100) None)) 1) =
     Some 100 \<and>
   map_option activeTrip
     (userData (snd (createTrip sampleWorld ledger80 1 (JStr ''commute'') (JNum 100) None)) 1) =
     Some (Some 0)"
proof -
  have c1: "Trip_create (\<lambda>x. NaN) 0 1000 1 (JStr ''commute'') (JNum 100) None None = Some idleTrip"
    by (simp add: Trip_create_def validPurpose_def validLocation_def trim_commute
        idleTrip_def sampleTrip_def Let_def)
  have e1: "fst (createTrip_legacy sampleWorld ledger80 1 (JStr ''commute'') (JNum 100) None) =
      Inr idleTrip"
    using c1
    by (simp add: createTrip_legacy_def ledger80_def emptyStore_def sampleWorld_def
        findActiveTrip_def preSave_def cm_idle Let_def)
  have p1: "createTrip_legacy sampleWorld ledger80 1 (JStr ''commute'') (JNum 100) None =
     (Inr idleTrip, snd (createTrip_legacy sampleWorld ledger80 1 (JStr ''commute'') (JNum 100) None))"
    using e1 by (metis prod.collapse)
  have v: "userData ledger80 1 = Some \<lparr>currentOdometer = 80, activeTrip = None\<rparr>"
    by (simp add: ledger80_def emptyStore_def)
  have r1: "userData (snd (createTrip_legacy sampleWorld ledger80 1 (JStr ''commute'') (JNum 100) None)) 1 =
     Some \<lparr>currentOdometer = 80, activeTrip = None\<rparr>"
    using createTrip_legacy_leaves_ledger [OF p1] v by simp
  show ?thesis
    using p1 r1 createTrip_raises_floor_examples by blast
qed

end
